theory Spec2Isabelle
  imports Main "HOL-Library.Word"
begin

section \<open>JavaScript values used by the program\<close>

text \<open>
  A JavaScript string is a sequence of 16-bit code units, and \<open>.length\<close> counts code units.
  \<open>lit\<close> embeds an ASCII literal of the source, one code unit per character.
\<close>

type_synonym jsstring = "16 word list"

definition lit :: "string \<Rightarrow> jsstring" where
  "lit s = map (\<lambda>c. of_nat (of_char c)) s"

text \<open>
  \<open>xs.slice(0, e)\<close>: a negative end counts from the end of the array, and the end is
  clamped to the array.
\<close>

definition js_slice0 :: "'a list \<Rightarrow> int \<Rightarrow> 'a list" where
  "js_slice0 xs e =
     (let n = int (length xs);
          k = (if e < 0 then max (n + e) 0 else min e n)
      in take (nat k) xs)"

text \<open>\<open>xs[i]\<close>: \<open>None\<close> stands for \<open>undefined\<close>, the value of a read outside the array.\<close>

definition js_index :: "'a list \<Rightarrow> int \<Rightarrow> 'a option" where
  "js_index xs i = (if 0 \<le> i \<and> i < int (length xs) then Some (xs ! nat i) else None)"

text \<open>
  \<open>s.substring(a, b)\<close> and \<open>s.substring(a)\<close> on non-negative integers: both bounds are
  clamped to the length, and swapped when the first is the larger.
\<close>

definition js_substring :: "'a list \<Rightarrow> nat \<Rightarrow> nat \<Rightarrow> 'a list" where
  "js_substring s a b =
     (let a' = min a (length s); b' = min b (length s);
          lo = min a' b'; hi = max a' b'
      in take (hi - lo) (drop lo s))"

definition js_substring_from :: "'a list \<Rightarrow> nat \<Rightarrow> 'a list" where
  "js_substring_from s a = drop (min a (length s)) s"

section \<open>The summary editor (SummaryEditor)\<close>

text \<open>
  The component's state: the \<open>summary\<close> prop supplied by the parent and the values held by
  \<open>useState\<close>. \<open>lastSaved\<close> is a \<open>Date\<close> or \<open>null\<close>; a date is a number of milliseconds.
  The word and character counters are recomputed from \<open>editedSummary\<close> by an effect and take
  no part in the history logic; they are left out.
\<close>

record editor =
  summary :: jsstring
  isEditing :: bool
  editedSummary :: jsstring
  history :: "jsstring list"
  historyIndex :: int
  lastSaved :: "nat option"

text \<open>The initial values of the \<open>useState\<close> calls when the component is mounted.\<close>

definition mount :: "jsstring \<Rightarrow> editor" where
  "mount v =
     \<lparr>summary = v, isEditing = False, editedSummary = v, history = [v],
      historyIndex = 0, lastSaved = None\<rparr>"

text \<open>
  The parent supplies a summary prop. The effect with dependency \<open>[summary]\<close> runs when the
  value differs from the one of the previous render, and re-initialises buffer and history.
\<close>

definition summaryProp :: "jsstring \<Rightarrow> editor \<Rightarrow> editor" where
  "summaryProp v s =
     (if v = summary s then s
      else s\<lparr>summary := v, editedSummary := v, history := [v], historyIndex := 0\<rparr>)"

definition addToHistory :: "jsstring \<Rightarrow> editor \<Rightarrow> editor" where
  "addToHistory newSummary s =
     (let newHistory = js_slice0 (history s) (historyIndex s + 1) @ [newSummary]
      in s\<lparr>history := newHistory, historyIndex := int (length newHistory) - 1\<rparr>)"

text \<open>
  \<open>editedSummary\<close> in the comparison is the value of the render in which the handler was
  created, that is the buffer before this change.
\<close>

definition handleTextChange :: "jsstring \<Rightarrow> editor \<Rightarrow> editor" where
  "handleTextChange v s =
     (let s' = s\<lparr>editedSummary := v\<rparr>
      in if \<bar>int (length v) - int (length (editedSummary s))\<bar> > 10
         then addToHistory v s' else s')"

text \<open>
  \<open>handleSave\<close> at time \<open>now\<close>: the second component is the argument of the
  \<open>onSummaryChange\<close> callback.
\<close>

definition handleSave :: "nat \<Rightarrow> editor \<Rightarrow> editor \<times> jsstring" where
  "handleSave now s =
     (addToHistory (editedSummary s) (s\<lparr>isEditing := False, lastSaved := Some now\<rparr>),
      editedSummary s)"

definition handleCancel :: "editor \<Rightarrow> editor" where
  "handleCancel s = s\<lparr>editedSummary := summary s, isEditing := False\<rparr>"

text \<open>
  \<open>handleUndo\<close> and \<open>handleRedo\<close> read \<open>history[newIndex]\<close>. A read outside the array would
  store \<open>undefined\<close> in a state variable declared as a string; the model makes that outcome
  explicit as \<open>None\<close>.
\<close>

definition handleUndo :: "editor \<Rightarrow> editor option" where
  "handleUndo s =
     (if historyIndex s > 0 then
        (let newIndex = historyIndex s - 1
         in case js_index (history s) newIndex of
              None \<Rightarrow> None
            | Some t \<Rightarrow> Some (s\<lparr>historyIndex := newIndex, editedSummary := t\<rparr>))
      else Some s)"

definition handleRedo :: "editor \<Rightarrow> editor option" where
  "handleRedo s =
     (if historyIndex s < int (length (history s)) - 1 then
        (let newIndex = historyIndex s + 1
         in case js_index (history s) newIndex of
              None \<Rightarrow> None
            | Some t \<Rightarrow> Some (s\<lparr>historyIndex := newIndex, editedSummary := t\<rparr>))
      else Some s)"

text \<open>
  \<open>insertFormatting before after\<close>. The third argument is the textarea behind the ref:
  \<open>None\<close> when the ref is empty, otherwise its \<open>selectionStart\<close> and \<open>selectionEnd\<close>. The
  second component of the result is the selection range that the deferred callback sets.
\<close>

definition insertFormatting ::
  "jsstring \<Rightarrow> jsstring \<Rightarrow> (nat \<times> nat) option \<Rightarrow> editor \<Rightarrow> editor \<times> (nat \<times> nat) option" where
  "insertFormatting before after textarea s =
     (case textarea of
        None \<Rightarrow> (s, None)
      | Some (start, end) \<Rightarrow>
          (let selectedText = js_substring (editedSummary s) start end;
               newText = js_substring (editedSummary s) 0 start @ before @ selectedText
                         @ after @ js_substring_from (editedSummary s) end
           in (addToHistory newText (s\<lparr>editedSummary := newText\<rparr>),
               Some (start + length before, end + length before))))"

subsection \<open>Events\<close>

text \<open>
  The events the rendered component reacts to: a change of the textarea, the toolbar and
  footer buttons, the three controls that set \<open>isEditing\<close>, and a new summary prop.
\<close>

datatype event =
    Type jsstring
  | Undo
  | Redo
  | InsertFormatting jsstring jsstring "(nat \<times> nat) option"
  | Save nat
  | Cancel
  | ToggleEditing
  | TabPreview
  | TabEdit
  | SummaryProp jsstring

fun step :: "event \<Rightarrow> editor \<Rightarrow> editor option" where
  "step (Type v) s = Some (handleTextChange v s)"
| "step Undo s = handleUndo s"
| "step Redo s = handleRedo s"
| "step (InsertFormatting before after textarea) s =
     Some (fst (insertFormatting before after textarea s))"
| "step (Save now) s = Some (fst (handleSave now s))"
| "step Cancel s = Some (handleCancel s)"
| "step ToggleEditing s = Some (s\<lparr>isEditing := \<not> isEditing s\<rparr>)"
| "step TabPreview s = Some (s\<lparr>isEditing := False\<rparr>)"
| "step TabEdit s = Some (s\<lparr>isEditing := True\<rparr>)"
| "step (SummaryProp v) s = Some (summaryProp v s)"

fun run :: "editor \<Rightarrow> event list \<Rightarrow> editor option" where
  "run s [] = Some s"
| "run s (e # es) = (case step e s of None \<Rightarrow> None | Some s' \<Rightarrow> run s' es)"

text \<open>
  The events whose handler calls \<open>addToHistory\<close> in the given state: a text change of more
  than 10 code units, a formatting insertion with the textarea present, and a save.
\<close>

fun commits :: "event \<Rightarrow> editor \<Rightarrow> bool" where
  "commits (Type v) s = (\<bar>int (length v) - int (length (editedSummary s))\<bar> > 10)"
| "commits (InsertFormatting before after textarea) s = (textarea \<noteq> None)"
| "commits (Save now) s = True"
| "commits _ s = False"

fun commit_run :: "editor \<Rightarrow> event list \<Rightarrow> editor option" where
  "commit_run s [] = Some s"
| "commit_run s (e # es) =
     (if commits e s
      then (case step e s of None \<Rightarrow> None | Some s' \<Rightarrow> commit_run s' es)
      else None)"

text \<open>The index points into the history.\<close>

definition index_ok :: "editor \<Rightarrow> bool" where
  "index_ok s = (0 \<le> historyIndex s \<and> historyIndex s < int (length (history s)))"

text \<open>The buffer is the history entry under the index.\<close>

definition synced :: "editor \<Rightarrow> bool" where
  "synced s = (index_ok s \<and> history s ! nat (historyIndex s) = editedSummary s)"

section \<open>The HTTP routes\<close>

text \<open>
  Both routes begin with \<open>await request.json()\<close> and a destructuring of its result, inside
  \<open>try\<close>. The body of a request is one of: text that does not parse as JSON, for which
  \<open>request.json()\<close> throws an error with a message; the JSON value \<open>null\<close>, for which the
  destructuring throws a \<open>TypeError\<close>; another JSON value that is not an object (a number,
  a string, a boolean, an array), of which every destructured field is \<open>undefined\<close>; an
  object with its fields.
\<close>

datatype 'a request_body = Unparseable jsstring | JsonNull | JsonOther | JsonObject 'a

datatype thrown = SyntaxError jsstring | TypeError

text \<open>
  The first statement of both routes: the error it throws, or the destructured fields.
  \<open>absent\<close> is the record in which every field is \<open>undefined\<close>.
\<close>

definition destructure :: "'a \<Rightarrow> 'a request_body \<Rightarrow> thrown + 'a" where
  "destructure absent b =
     (case b of
        Unparseable msg \<Rightarrow> Inl (SyntaxError msg)
      | JsonNull \<Rightarrow> Inl TypeError
      | JsonOther \<Rightarrow> Inr absent
      | JsonObject obj \<Rightarrow> Inr obj)"

text \<open>
  A field that is absent from an object is \<open>undefined\<close>, written \<open>None\<close>. The string fields
  are strings where present, as the declared request types say.
\<close>

definition truthy :: "jsstring option \<Rightarrow> bool" where
  "truthy v = (case v of None \<Rightarrow> False | Some t \<Rightarrow> t \<noteq> [])"

text \<open>A value inside a template literal: \<open>undefined\<close> prints as the word.\<close>

definition to_str :: "jsstring option \<Rightarrow> jsstring" where
  "to_str v = (case v of None \<Rightarrow> lit ''undefined'' | Some t \<Rightarrow> t)"

definition digit :: "nat \<Rightarrow> 16 word" where
  "digit d = of_nat (48 + d)"

function show_nat :: "nat \<Rightarrow> jsstring" where
  "show_nat n = (if n < 10 then [digit n] else show_nat (n div 10) @ [digit (n mod 10)])"
  by pat_completeness auto
termination
  by (relation "measure id") auto

declare show_nat.simps [simp del]

fun js_join :: "jsstring \<Rightarrow> jsstring list \<Rightarrow> jsstring" where
  "js_join sep [] = []"
| "js_join sep [x] = x"
| "js_join sep (x # y # ys) = x @ sep @ js_join sep (y # ys)"

text \<open>\<open>s.split(c)\<close> for a separator of one code unit.\<close>

fun js_split :: "16 word \<Rightarrow> jsstring \<Rightarrow> jsstring list" where
  "js_split c [] = [[]]"
| "js_split c (x # xs) =
     (if x = c then [] # js_split c xs
      else (case js_split c xs of [] \<Rightarrow> [[x]] | r # rs \<Rightarrow> (x # r) # rs))"

subsection \<open>The email pattern\<close>

text \<open>The class \<open>\s\<close> of a regular expression, on code units.\<close>

definition is_space :: "16 word \<Rightarrow> bool" where
  "is_space c =
     (c \<in> {0x9, 0xA, 0xB, 0xC, 0xD, 0x20, 0xA0, 0x1680, 0x2028, 0x2029, 0x202F, 0x205F,
            0x3000, 0xFEFF}
      \<or> (0x2000 \<le> c \<and> c \<le> 0x200A))"

text \<open>
  A pattern anchored at both ends, made of literal code units and of \<open>[class]+\<close> items, and
  its matcher: \<open>OneOrMore p\<close> consumes one code unit of the class and then either goes on
  with the rest of the pattern or consumes another one.
\<close>

datatype atom = Lit "16 word" | OneOrMore "16 word \<Rightarrow> bool"

fun matches :: "atom list \<Rightarrow> jsstring \<Rightarrow> bool" where
  "matches [] s = (s = [])"
| "matches (Lit c # r) [] = False"
| "matches (Lit c # r) (x # xs) = (x = c \<and> matches r xs)"
| "matches (OneOrMore p # r) [] = False"
| "matches (OneOrMore p # r) (x # xs) =
     (p x \<and> (matches r xs \<or> matches (OneOrMore p # r) xs))"

text \<open>The class \<open>[^\s@]\<close>.\<close>

definition not_space_at :: "16 word \<Rightarrow> bool" where
  "not_space_at c = (\<not> is_space c \<and> c \<noteq> 0x40)"

text \<open>\<open>/^[^\s@]+@[^\s@]+\.[^\s@]+$/\<close>\<close>

definition emailRegex :: "atom list" where
  "emailRegex =
     [OneOrMore not_space_at, Lit 0x40, OneOrMore not_space_at, Lit 0x2E,
      OneOrMore not_space_at]"

definition emailRegex_test :: "jsstring \<Rightarrow> bool" where
  "emailRegex_test email = matches emailRegex email"

subsection \<open>POST /share\<close>

text \<open>
  The \<open>recipients\<close> field of the body: absent, a value that is not an array, or an array
  of strings.
\<close>

datatype recipients_value = Missing | NotArray | Array "jsstring list"

record share_request =
  recipients :: recipients_value
  subject :: "jsstring option"
  body :: "jsstring option"
  format :: "jsstring option"
  share_summary :: "jsstring option"

record mail =
  mail_from :: jsstring
  mail_to :: jsstring
  mail_subject :: jsstring
  mail_text :: "jsstring option"

text \<open>
  What \<open>sendMail\<close> does with a mail: it resolves, or it throws; the thrown value carries a
  message when it is an \<open>Error\<close>.
\<close>

datatype send_result = Sent | Threw "jsstring option"

text \<open>
  The surroundings of the route: the \<open>EMAIL_USER\<close> variable, the mail transport, today's
  date as \<open>toLocaleDateString\<close> prints it, and the message of the \<open>TypeError\<close> that the
  engine throws when \<open>null\<close> is destructured.
\<close>

record share_env =
  EMAIL_USER :: "jsstring option"
  sendMail :: "mail \<Rightarrow> send_result"
  today :: jsstring
  destructure_message :: jsstring

definition absent_share :: share_request where
  "absent_share =
     \<lparr>recipients = Missing, subject = None, body = None, format = None,
      share_summary = None\<rparr>"

datatype response =
    Error nat jsstring
  | ShareOk jsstring nat "jsstring option"
  | SummaryOk jsstring

fun status :: "response \<Rightarrow> nat" where
  "status (Error code msg) = code"
| "status (ShareOk msg n fmt) = 200"
| "status (SummaryOk text) = 200"

text \<open>
  The response of the route, and the mails handed to the transport (none or one). An
  error thrown inside \<open>try\<close> is caught and answered with status 500 and its message.
\<close>

definition POST_share ::
  "share_env \<Rightarrow> share_request request_body \<Rightarrow> response \<times> mail list" where
  "POST_share env b =
     (case destructure absent_share b of
        Inl (SyntaxError msg) \<Rightarrow> (Error 500 msg, [])
      | Inl TypeError \<Rightarrow> (Error 500 (destructure_message env), [])
      | Inr req \<Rightarrow>
          (case recipients req of
             Missing \<Rightarrow> (Error 400 (lit ''At least one recipient is required''), [])
           | NotArray \<Rightarrow> (Error 400 (lit ''At least one recipient is required''), [])
           | Array rs \<Rightarrow>
               if length rs = 0 then (Error 400 (lit ''At least one recipient is required''), [])
               else if \<not> truthy (share_summary req) \<and> \<not> truthy (body req)
               then (Error 400 (lit ''Summary or message body is required''), [])
               else
                 (let invalidEmails = filter (\<lambda>email. \<not> emailRegex_test email) rs
                  in if length invalidEmails > 0
                     then (Error 400 (lit ''Invalid email addresses: ''
                                      @ js_join (lit '', '') invalidEmails), [])
                     else
                       (let m = \<lparr>mail_from = lit [CHR 0x22] @ lit ''Meeting Bot'' @ lit [CHR 0x22]
                                             @ lit '' <'' @ to_str (EMAIL_USER env) @ lit ''>'',
                                 mail_to = js_join (lit '', '') rs,
                                 mail_subject =
                                   (if truthy (subject req) then to_str (subject req)
                                    else lit ''Meeting Summary - '' @ today env),
                                 mail_text =
                                   (if truthy (body req) then body req else share_summary req)\<rparr>
                        in case sendMail env m of
                             Sent \<Rightarrow>
                               (ShareOk (lit ''Email sent successfully to '' @ show_nat (length rs)
                                         @ lit '' recipient(s)'')
                                  (length rs) (format req), [m])
                           | Threw (Some msg) \<Rightarrow> (Error 500 msg, [m])
                           | Threw None \<Rightarrow> (Error 500 (lit ''Failed to send email''), [m])))))"

subsection \<open>POST /summarize\<close>

record summarize_request =
  transcript :: "jsstring option"
  prompt :: "jsstring option"
  model :: "jsstring option"
  template :: "jsstring option"

definition absent_summarize :: summarize_request where
  "absent_summarize = \<lparr>transcript = None, prompt = None, model = None, template = None\<rparr>"

definition nl :: jsstring where
  "nl = [0xA]"

definition bullet :: jsstring where
  "bullet = [0x2022, 0x20]"

definition generateMockSummary ::
  "jsstring \<Rightarrow> jsstring option \<Rightarrow> jsstring option \<Rightarrow> jsstring" where
  "generateMockSummary transcript_text tmpl mdl =
     (let baseContent = js_join (nl @ bullet) (js_slice0 (js_split 0xA transcript_text) 5);
          header = lit ''**Meeting Summary** (Generated with '' @ to_str mdl @ lit '')''
                   @ nl @ nl;
          section_text =
            (if tmpl = Some (lit ''standup'') then
               lit ''**Yesterday's Accomplishments:**'' @ nl @ bullet @ baseContent @ nl @ nl
               @ lit ''**Today's Plans:**'' @ nl
               @ bullet @ lit ''Continue with ongoing tasks'' @ nl
               @ bullet @ lit ''Address any blockers'' @ nl @ nl
               @ lit ''**Blockers/Impediments:**'' @ nl
               @ bullet @ lit ''None reported'' @ nl
             else if tmpl = Some (lit ''project'') then
               lit ''**Project Status:**'' @ nl @ bullet @ baseContent @ nl @ nl
               @ lit ''**Milestones Achieved:**'' @ nl
               @ bullet @ lit ''Key deliverables completed'' @ nl @ nl
               @ lit ''**Upcoming Deadlines:**'' @ nl
               @ bullet @ lit ''Next milestone in 2 weeks'' @ nl @ nl
               @ lit ''**Risks Identified:**'' @ nl
               @ bullet @ lit ''Monitor resource allocation'' @ nl @ nl
               @ lit ''**Next Steps:**'' @ nl
               @ bullet @ lit ''Continue execution as planned'' @ nl
             else if tmpl = Some (lit ''business'') then
               lit ''**Strategic Decisions:**'' @ nl @ bullet @ baseContent @ nl @ nl
               @ lit ''**Financial Discussions:**'' @ nl
               @ bullet @ lit ''Budget allocation reviewed'' @ nl @ nl
               @ lit ''**Market Insights:**'' @ nl
               @ bullet @ lit ''Current trends analyzed'' @ nl @ nl
               @ lit ''**Action Items:**'' @ nl
               @ bullet @ lit ''Follow up on key initiatives'' @ nl
               @ bullet @ lit ''Schedule next review meeting'' @ nl
             else
               lit ''**Key Points:**'' @ nl @ bullet @ baseContent @ nl @ nl
               @ lit ''**Action Items:**'' @ nl
               @ bullet @ lit ''Follow up on discussed topics'' @ nl
               @ bullet @ lit ''Schedule next meeting'' @ nl
               @ bullet @ lit ''Review and implement suggestions'' @ nl @ nl
               @ lit ''**Decisions Made:**'' @ nl
               @ bullet @ lit ''Agreed to move forward with proposed plan'' @ nl
               @ bullet @ lit ''Assigned responsibilities to team members'' @ nl @ nl
               @ lit ''**Next Steps:**'' @ nl
               @ bullet @ lit ''Continue monitoring progress'' @ nl
               @ bullet @ lit ''Prepare for next phase'' @ nl)
      in header @ section_text @ nl @ lit ''*Generated using '' @ to_str mdl @ lit '' with ''
         @ to_str tmpl @ lit '' template*'')"

text \<open>
  The route waits for a delay that depends on the model before it answers; the delay does
  not change the response. Whatever is thrown inside \<open>try\<close> is answered with status 500
  and a fixed message.
\<close>

definition POST_summarize :: "summarize_request request_body \<Rightarrow> response" where
  "POST_summarize b =
     (case destructure absent_summarize b of
        Inl e \<Rightarrow> Error 500 (lit ''Failed to generate summary'')
      | Inr req \<Rightarrow>
          if \<not> truthy (transcript req) \<or> \<not> truthy (prompt req)
          then Error 400 (lit ''Transcript and prompt are required'')
          else SummaryOk
                 (generateMockSummary (to_str (transcript req)) (template req) (model req)))"

subsection \<open>Values used in the examples\<close>

text \<open>
  A run of text changes in which each change differs in length from the buffer before it
  by at most 10.
\<close>

fun small_steps :: "jsstring \<Rightarrow> jsstring list \<Rightarrow> bool" where
  "small_steps b [] = True"
| "small_steps b (v # vs) = (\<bar>int (length v) - int (length b)\<bar> \<le> 10 \<and> small_steps v vs)"

text \<open>An environment whose transport accepts every mail.\<close>

fun always_sent :: "mail \<Rightarrow> send_result" where
  "always_sent m = Sent"

definition resolving_env :: share_env where
  "resolving_env =
     \<lparr>EMAIL_USER = Some (lit ''bot@example.com''), sendMail = always_sent,
      today = lit ''1/2/2025'',
      destructure_message = lit ''Cannot destructure property 'recipients' of null''\<rparr>"

section \<open>Helper lemmas\<close>

lemma js_slice0_in_range:
  "0 \<le> i \<Longrightarrow> i < int (length xs) \<Longrightarrow> js_slice0 xs (i + 1) = take (nat i + 1) xs"
  by (simp add: js_slice0_def Let_def nat_add_distrib)

lemma length_js_slice0: "length (js_slice0 xs e) \<le> length xs"
  by (simp add: js_slice0_def Let_def)

lemma index_ok_addToHistory: "index_ok (addToHistory x s)"
  by (simp add: index_ok_def addToHistory_def Let_def)

lemma addToHistory_last:
  "historyIndex (addToHistory x s) = int (length (history (addToHistory x s))) - 1"
  by (simp add: addToHistory_def Let_def)

lemma addToHistory_entry:
  "history (addToHistory x s) ! nat (historyIndex (addToHistory x s)) = x"
  by (simp add: addToHistory_def Let_def nth_append)

lemma addToHistory_buffer: "editedSummary (addToHistory x s) = editedSummary s"
  by (simp add: addToHistory_def Let_def)

lemma js_index_in_range:
  "0 \<le> i \<Longrightarrow> i < int (length xs) \<Longrightarrow> js_index xs i = Some (xs ! nat i)"
  by (simp add: js_index_def)

lemma addToHistory_changes:
  "(history (addToHistory x s), historyIndex (addToHistory x s)) \<noteq> (history s, historyIndex s)"
proof
  assume eq: "(history (addToHistory x s), historyIndex (addToHistory x s)) = (history s, historyIndex s)"
  then have h: "js_slice0 (history s) (historyIndex s + 1) @ [x] = history s"
    by (simp add: addToHistory_def Let_def)
  from eq have i: "int (length (js_slice0 (history s) (historyIndex s + 1))) = historyIndex s"
    by (simp add: addToHistory_def Let_def)
  from h have "length (history s) = length (js_slice0 (history s) (historyIndex s + 1)) + 1"
    by (metis length_append_singleton Suc_eq_plus1)
  with i have "historyIndex s + 1 = int (length (history s))" by simp
  then have "js_slice0 (history s) (historyIndex s + 1) = history s"
    by (simp add: js_slice0_def Let_def)
  with h show False by simp
qed

lemma js_substring_in_range:
  "a \<le> b \<Longrightarrow> b \<le> length s \<Longrightarrow> js_substring s a b = take (b - a) (drop a s)"
  by (simp add: js_substring_def Let_def min_def max_def)

lemma js_substring_prefix:
  "a \<le> length s \<Longrightarrow> js_substring s 0 a = take a s"
  by (simp add: js_substring_def Let_def min_def max_def)

lemma js_substring_from_in_range:
  "a \<le> length s \<Longrightarrow> js_substring_from s a = drop a s"
  by (simp add: js_substring_from_def min_def)

lemma addToHistory_in_range:
  assumes "index_ok s"
  shows "history (addToHistory x s) = take (nat (historyIndex s) + 1) (history s) @ [x]"
    and "historyIndex (addToHistory x s) = historyIndex s + 1"
proof -
  from assms have sl: "js_slice0 (history s) (historyIndex s + 1)
      = take (nat (historyIndex s) + 1) (history s)"
    by (simp add: index_ok_def js_slice0_in_range)
  from assms have len: "length (take (nat (historyIndex s) + 1) (history s))
      = nat (historyIndex s) + 1"
    by (simp add: index_ok_def min_def) arith
  show "history (addToHistory x s) = take (nat (historyIndex s) + 1) (history s) @ [x]"
    by (simp add: addToHistory_def Let_def sl)
  show "historyIndex (addToHistory x s) = historyIndex s + 1"
    using assms len by (simp add: addToHistory_def Let_def sl index_ok_def)
qed

lemma synced_addToHistory:
  "editedSummary s = x \<Longrightarrow> synced (addToHistory x s)"
  by (simp add: synced_def index_ok_addToHistory addToHistory_entry addToHistory_buffer)

lemma commits_step_tip:
  "commits e s \<Longrightarrow> step e s = Some s' \<Longrightarrow>
     synced s' \<and> historyIndex s' = int (length (history s')) - 1"
proof (cases e)
  case (Type v)
  assume "commits e s" "step e s = Some s'"
  with Type have s': "s' = addToHistory v (s\<lparr>editedSummary := v\<rparr>)"
    by (simp add: handleTextChange_def Let_def)
  show ?thesis unfolding s' by (simp add: synced_addToHistory addToHistory_last)
next
  case (InsertFormatting b a ta)
  assume "commits e s" "step e s = Some s'"
  with InsertFormatting obtain st en where ta: "ta = Some (st, en)" by auto
  from \<open>step e s = Some s'\<close> InsertFormatting ta
  obtain t where s': "s' = addToHistory t (s\<lparr>editedSummary := t\<rparr>)"
    by (auto simp: insertFormatting_def Let_def)
  show ?thesis unfolding s' by (simp add: synced_addToHistory addToHistory_last)
next
  case (Save now)
  assume "step e s = Some s'"
  with Save have s': "s' = addToHistory (editedSummary s) (s\<lparr>isEditing := False, lastSaved := Some now\<rparr>)"
    by (simp add: handleSave_def)
  show ?thesis unfolding s' by (simp add: synced_addToHistory addToHistory_last)
qed simp_all

lemma commit_run_tip:
  "commit_run s0 es = Some s \<Longrightarrow>
     synced s0 \<and> historyIndex s0 = int (length (history s0)) - 1 \<Longrightarrow>
     synced s \<and> historyIndex s = int (length (history s)) - 1"
proof (induction es arbitrary: s0)
  case Nil
  then show ?case by simp
next
  case (Cons e es)
  from Cons.prems(1) obtain s1 where c: "commits e s0" and st: "step e s0 = Some s1"
    and r: "commit_run s1 es = Some s"
    by (auto split: if_splits option.splits)
  from commits_step_tip [OF c st] Cons.IH [OF r] show ?case by simp
qed

lemma tip_round_trip:
  assumes "synced s" and "historyIndex s = int (length (history s)) - 1"
  shows "\<exists>u. handleUndo s = Some u \<and> handleRedo u = Some s"
proof (cases "historyIndex s > 0")
  case True
  let ?u = "s\<lparr>historyIndex := historyIndex s - 1,
              editedSummary := history s ! nat (historyIndex s - 1)\<rparr>"
  from True assms have u: "handleUndo s = Some ?u"
    by (simp add: handleUndo_def Let_def js_index_def synced_def index_ok_def)
  from True assms have "handleRedo ?u = Some s"
    by (simp add: handleRedo_def Let_def js_index_def synced_def index_ok_def)
  with u show ?thesis by blast
next
  case False
  with assms show ?thesis
    by (simp add: handleUndo_def handleRedo_def)
qed

lemma index_ok_step:
  "index_ok s \<Longrightarrow> \<exists>s'. step e s = Some s' \<and> index_ok s'"
proof (cases e)
  case (Type v)
  assume "index_ok s"
  then show ?thesis using Type index_ok_addToHistory [of v "s\<lparr>editedSummary := v\<rparr>"]
    by (simp add: handleTextChange_def Let_def index_ok_def)
next
  case Undo
  assume "index_ok s"
  then show ?thesis using Undo
    by (simp add: handleUndo_def Let_def js_index_def index_ok_def)
next
  case Redo
  assume "index_ok s"
  then show ?thesis using Redo
    by (simp add: handleRedo_def Let_def js_index_def index_ok_def)
next
  case (InsertFormatting b a ta)
  assume ok: "index_ok s"
  show ?thesis
  proof (cases ta)
    case None
    with ok InsertFormatting show ?thesis by (simp add: insertFormatting_def)
  next
    case (Some p)
    obtain st en where p: "p = (st, en)" by (cases p)
    show ?thesis using InsertFormatting Some p
      by (simp add: insertFormatting_def Let_def index_ok_addToHistory)
  qed
next
  case (Save now)
  then show ?thesis by (simp add: handleSave_def index_ok_addToHistory)
next
  case Cancel
  assume "index_ok s"
  then show ?thesis using Cancel by (simp add: handleCancel_def index_ok_def)
next
  case (SummaryProp v)
  assume "index_ok s"
  then show ?thesis using SummaryProp by (simp add: summaryProp_def index_ok_def)
qed (simp_all add: index_ok_def)

lemma index_ok_run:
  "index_ok s0 \<Longrightarrow> \<exists>s. run s0 es = Some s \<and> index_ok s"
proof (induction es arbitrary: s0)
  case Nil
  then show ?case by simp
next
  case (Cons e es)
  from index_ok_step [OF Cons.prems, of e] obtain s1
    where st: "step e s0 = Some s1" and ok: "index_ok s1" by blast
  from Cons.IH [OF ok] show ?case by (simp add: st)
qed

lemma undo_syncs:
  "index_ok s \<Longrightarrow> 0 < historyIndex s \<Longrightarrow>
     \<exists>u. handleUndo s = Some u \<and> history u ! nat (historyIndex u) = editedSummary u"
  by (simp add: handleUndo_def Let_def js_index_def index_ok_def)

lemma redo_syncs:
  "index_ok s \<Longrightarrow> historyIndex s < int (length (history s)) - 1 \<Longrightarrow>
     \<exists>r. handleRedo s = Some r \<and> history r ! nat (historyIndex r) = editedSummary r"
  by (simp add: handleRedo_def Let_def js_index_def index_ok_def)

lemma small_steps_never_commit:
  "small_steps (editedSummary s) vs \<Longrightarrow>
     \<exists>s'. run s (map Type vs) = Some s' \<and> history s' = history s
       \<and> historyIndex s' = historyIndex s"
proof (induction vs arbitrary: s)
  case Nil
  then show ?case by simp
next
  case (Cons v vs)
  let ?s1 = "s\<lparr>editedSummary := v\<rparr>"
  from Cons.prems have h: "handleTextChange v s = ?s1" and sm: "small_steps (editedSummary ?s1) vs"
    by (simp_all add: handleTextChange_def Let_def)
  from Cons.IH [OF sm] show ?case by (simp add: h)
qed

text \<open>What the matcher accepts, and the shape of the strings the email pattern accepts.\<close>

lemma matches_Lit:
  "matches (Lit c # r) s \<longleftrightarrow> (\<exists>t. s = c # t \<and> matches r t)"
  by (cases s) auto

lemma matches_OneOrMore:
  "matches (OneOrMore p # r) s
     \<longleftrightarrow> (\<exists>a t. s = a @ t \<and> a \<noteq> [] \<and> (\<forall>x \<in> set a. p x) \<and> matches r t)"
proof (induction s)
  case Nil
  then show ?case by simp
next
  case (Cons x xs)
  show ?case
  proof
    assume "matches (OneOrMore p # r) (x # xs)"
    then have px: "p x" and alt: "matches r xs \<or> matches (OneOrMore p # r) xs" by simp_all
    from alt show "\<exists>a t. x # xs = a @ t \<and> a \<noteq> [] \<and> (\<forall>x \<in> set a. p x) \<and> matches r t"
    proof
      assume "matches r xs"
      with px have "x # xs = [x] @ xs \<and> [x] \<noteq> [] \<and> (\<forall>y \<in> set [x]. p y) \<and> matches r xs"
        by simp
      then show ?thesis by blast
    next
      assume "matches (OneOrMore p # r) xs"
      with Cons.IH obtain a t where "xs = a @ t" "a \<noteq> []" "\<forall>y \<in> set a. p y" "matches r t"
        by blast
      with px have "x # xs = (x # a) @ t \<and> x # a \<noteq> [] \<and> (\<forall>y \<in> set (x # a). p y)
          \<and> matches r t" by simp
      then show ?thesis by blast
    qed
  next
    assume "\<exists>a t. x # xs = a @ t \<and> a \<noteq> [] \<and> (\<forall>x \<in> set a. p x) \<and> matches r t"
    then obtain a t where eq: "x # xs = a @ t" and ne: "a \<noteq> []"
      and all: "\<forall>y \<in> set a. p y" and m: "matches r t" by blast
    from ne obtain y ys where a: "a = y # ys" by (cases a) auto
    with eq have xy: "x = y" and xs: "xs = ys @ t" by simp_all
    from all a xy have px: "p x" and pys: "\<forall>y \<in> set ys. p y" by simp_all
    show "matches (OneOrMore p # r) (x # xs)"
    proof (cases ys)
      case Nil
      with xs m px show ?thesis by simp
    next
      case (Cons z zs)
      with xs pys m have "\<exists>a t. xs = a @ t \<and> a \<noteq> [] \<and> (\<forall>x \<in> set a. p x) \<and> matches r t"
        by blast
      with Cons.IH px show ?thesis by simp
    qed
  qed
qed

lemma emailRegex_test_iff:
  "emailRegex_test email \<longleftrightarrow>
     (\<exists>a b c. email = a @ [0x40] @ b @ [0x2E] @ c \<and> a \<noteq> [] \<and> b \<noteq> [] \<and> c \<noteq> []
        \<and> (\<forall>x \<in> set (a @ b @ c). not_space_at x))"
proof
  assume "emailRegex_test email"
  then obtain a t1 where 1: "email = a @ t1" "a \<noteq> []" "\<forall>x \<in> set a. not_space_at x"
    and m1: "matches [Lit 0x40, OneOrMore not_space_at, Lit 0x2E, OneOrMore not_space_at] t1"
    unfolding emailRegex_test_def emailRegex_def matches_OneOrMore [of _ _ email] by blast
  from m1 obtain t2 where 2: "t1 = 0x40 # t2"
    and m2: "matches [OneOrMore not_space_at, Lit 0x2E, OneOrMore not_space_at] t2"
    unfolding matches_Lit [of _ _ t1] by blast
  from m2 obtain b t3 where 3: "t2 = b @ t3" "b \<noteq> []" "\<forall>x \<in> set b. not_space_at x"
    and m3: "matches [Lit 0x2E, OneOrMore not_space_at] t3"
    unfolding matches_OneOrMore [of _ _ t2] by blast
  from m3 obtain t4 where 4: "t3 = 0x2E # t4" and m4: "matches [OneOrMore not_space_at] t4"
    unfolding matches_Lit [of _ _ t3] by blast
  from m4 obtain c t5 where 5: "t4 = c @ t5" "c \<noteq> []" "\<forall>x \<in> set c. not_space_at x"
    and m5: "matches [] t5"
    unfolding matches_OneOrMore [of _ _ t4] by blast
  from m5 have "t5 = []" by simp
  with 1 2 3 4 5 have "email = a @ [0x40] @ b @ [0x2E] @ c \<and> a \<noteq> [] \<and> b \<noteq> [] \<and> c \<noteq> []
        \<and> (\<forall>x \<in> set (a @ b @ c). not_space_at x)" by auto
  then show "\<exists>a b c. email = a @ [0x40] @ b @ [0x2E] @ c \<and> a \<noteq> [] \<and> b \<noteq> [] \<and> c \<noteq> []
        \<and> (\<forall>x \<in> set (a @ b @ c). not_space_at x)" by blast
next
  assume "\<exists>a b c. email = a @ [0x40] @ b @ [0x2E] @ c \<and> a \<noteq> [] \<and> b \<noteq> [] \<and> c \<noteq> []
        \<and> (\<forall>x \<in> set (a @ b @ c). not_space_at x)"
  then obtain a b c where e: "email = a @ [0x40] @ b @ [0x2E] @ c"
    and ne: "a \<noteq> []" "b \<noteq> []" "c \<noteq> []"
    and pa: "\<forall>x \<in> set a. not_space_at x" and pb: "\<forall>x \<in> set b. not_space_at x"
    and pc: "\<forall>x \<in> set c. not_space_at x" by auto
  from ne pc have m4: "matches [OneOrMore not_space_at] c"
    unfolding matches_OneOrMore [of _ _ c] by (intro exI [of _ c] exI [of _ "[]"]) simp
  then have m3: "matches [Lit 0x2E, OneOrMore not_space_at] (0x2E # c)" by simp
  with ne pb have m2: "matches [OneOrMore not_space_at, Lit 0x2E, OneOrMore not_space_at]
      (b @ 0x2E # c)"
    unfolding matches_OneOrMore [of _ _ "b @ 0x2E # c"] by blast
  then have m1: "matches [Lit 0x40, OneOrMore not_space_at, Lit 0x2E, OneOrMore not_space_at]
      (0x40 # b @ 0x2E # c)" by simp
  with ne pa have "matches emailRegex (a @ 0x40 # b @ 0x2E # c)"
    unfolding emailRegex_def matches_OneOrMore [of _ _ "a @ 0x40 # b @ 0x2E # c"] by blast
  with e show "emailRegex_test email" by (simp add: emailRegex_test_def)
qed

lemma destructure_simps:
  "destructure absent (Unparseable msg) = Inl (SyntaxError msg)"
  "destructure absent JsonNull = Inl TypeError"
  "destructure absent JsonOther = Inr absent"
  "destructure absent (JsonObject obj) = Inr obj"
  by (simp_all add: destructure_def)

lemma summarize_accepts:
  "truthy (transcript req) \<Longrightarrow> truthy (prompt req) \<Longrightarrow>
     \<exists>t. POST_summarize (JsonObject req) = SummaryOk t"
  by (simp add: POST_summarize_def destructure_simps)

lemma share_sends_one_mail:
  "recipients req = Array rs \<Longrightarrow> rs \<noteq> [] \<Longrightarrow>
   truthy (share_summary req) \<or> truthy (body req) \<Longrightarrow>
   \<forall>e \<in> set rs. emailRegex_test e \<Longrightarrow>
   length (snd (POST_share env (JsonObject req))) = 1"
  by (auto simp: POST_share_def destructure_simps Let_def filter_empty_conv
      split: send_result.splits option.splits)

lemma emailRegex_test_examples:
  "emailRegex_test (lit ''a@b.co'')" "\<not> emailRegex_test (lit ''bad'')"
  "\<not> emailRegex_test (lit ''x y@z.w'')"
  by (simp_all add: emailRegex_test_def emailRegex_def not_space_at_def is_space_def lit_def)

section \<open>The edit history\<close>

text \<open>
  C7. In every editor state, Cancel sets the buffer to the summary supplied by the parent
  and leaves editing mode; the history and the history index stay exactly as they were
  (nothing is committed), and so do the summary prop and the save time.
\<close>

theorem cancel_frame:
  "editedSummary (handleCancel s) = summary s \<and> isEditing (handleCancel s) = False
   \<and> history (handleCancel s) = history s \<and> historyIndex (handleCancel s) = historyIndex s
   \<and> summary (handleCancel s) = summary s \<and> lastSaved (handleCancel s) = lastSaved s"
  by (simp add: handleCancel_def)

text \<open>
  C4. Undo at index 0 leaves the state (buffer and index) unchanged, and Redo at the last
  index leaves it unchanged. Otherwise, with the index inside the history, Undo decrements
  the index and Redo increments it, and each sets the buffer to the history entry at the
  new index.
\<close>

theorem undo_redo_cases:
  "(historyIndex s = 0 \<longrightarrow> handleUndo s = Some s)
   \<and> (historyIndex s = int (length (history s)) - 1 \<longrightarrow> handleRedo s = Some s)
   \<and> (index_ok s \<and> historyIndex s \<noteq> 0 \<longrightarrow>
        handleUndo s = Some (s\<lparr>historyIndex := historyIndex s - 1,
                                editedSummary := history s ! nat (historyIndex s - 1)\<rparr>))
   \<and> (index_ok s \<and> historyIndex s \<noteq> int (length (history s)) - 1 \<longrightarrow>
        handleRedo s = Some (s\<lparr>historyIndex := historyIndex s + 1,
                                editedSummary := history s ! nat (historyIndex s + 1)\<rparr>))"
  by (simp add: handleUndo_def handleRedo_def index_ok_def js_index_def Let_def)

theorem undo_redo_cases_witness:
  "handleUndo (mount (lit ''X'')) = Some (mount (lit ''X''))
   \<and> handleRedo (mount (lit ''X'')) = Some (mount (lit ''X''))
   \<and> handleUndo \<lparr>summary = lit ''a'', isEditing = True, editedSummary = lit ''b'',
       history = [lit ''a'', lit ''b'', lit ''c''], historyIndex = 1, lastSaved = None\<rparr>
     = Some \<lparr>summary = lit ''a'', isEditing = True, editedSummary = lit ''a'',
       history = [lit ''a'', lit ''b'', lit ''c''], historyIndex = 0, lastSaved = None\<rparr>
   \<and> handleRedo \<lparr>summary = lit ''a'', isEditing = True, editedSummary = lit ''b'',
       history = [lit ''a'', lit ''b'', lit ''c''], historyIndex = 1, lastSaved = None\<rparr>
     = Some \<lparr>summary = lit ''a'', isEditing = True, editedSummary = lit ''c'',
       history = [lit ''a'', lit ''b'', lit ''c''], historyIndex = 2, lastSaved = None\<rparr>"
  using undo_redo_cases [of "mount (lit ''X'')"]
    undo_redo_cases [of "\<lparr>summary = lit ''a'', isEditing = True, editedSummary = lit ''b'',
       history = [lit ''a'', lit ''b'', lit ''c''], historyIndex = 1, lastSaved = None\<rparr>"]
  by (simp add: mount_def index_ok_def)

text \<open>
  C3. For every state whose index lies inside the history (in particular after one or
  more Undo) and every text \<open>x\<close>: committing \<open>x\<close> truncates the history to the entries up
  to the current index and appends \<open>x\<close>, the index is the new last position, and a Redo
  after it changes nothing, so the former redo tail cannot be reached.
\<close>

theorem commit_discards_redo_tail:
  "index_ok s \<Longrightarrow>
     history (addToHistory x s) = take (nat (historyIndex s) + 1) (history s) @ [x]
     \<and> historyIndex (addToHistory x s) = historyIndex s + 1
     \<and> historyIndex (addToHistory x s) = int (length (history (addToHistory x s))) - 1
     \<and> handleRedo (addToHistory x s) = Some (addToHistory x s)"
proof -
  assume ok: "index_ok s"
  then have sl: "js_slice0 (history s) (historyIndex s + 1) = take (nat (historyIndex s) + 1) (history s)"
    by (simp add: index_ok_def js_slice0_in_range)
  have len: "length (take (nat (historyIndex s) + 1) (history s)) = nat (historyIndex s) + 1"
    using ok by (simp add: index_ok_def min_def) arith
  show ?thesis
    using ok len by (simp add: addToHistory_def Let_def sl handleRedo_def index_ok_def)
qed

theorem commit_discards_redo_tail_witness:
  "index_ok \<lparr>summary = lit ''a'', isEditing = True, editedSummary = lit ''a'',
       history = [lit ''a'', lit ''b'', lit ''c''], historyIndex = 0, lastSaved = None\<rparr>
   \<and> history (addToHistory (lit ''x'') \<lparr>summary = lit ''a'', isEditing = True, editedSummary = lit ''a'',
       history = [lit ''a'', lit ''b'', lit ''c''], historyIndex = 0, lastSaved = None\<rparr>)
     = [lit ''a'', lit ''x'']
   \<and> historyIndex (addToHistory (lit ''x'') \<lparr>summary = lit ''a'', isEditing = True, editedSummary = lit ''a'',
       history = [lit ''a'', lit ''b'', lit ''c''], historyIndex = 0, lastSaved = None\<rparr>) = 1
   \<and> handleRedo (addToHistory (lit ''x'') \<lparr>summary = lit ''a'', isEditing = True, editedSummary = lit ''a'',
       history = [lit ''a'', lit ''b'', lit ''c''], historyIndex = 0, lastSaved = None\<rparr>)
     = Some (addToHistory (lit ''x'') \<lparr>summary = lit ''a'', isEditing = True, editedSummary = lit ''a'',
       history = [lit ''a'', lit ''b'', lit ''c''], historyIndex = 0, lastSaved = None\<rparr>)"
proof -
  have ok: "index_ok \<lparr>summary = lit ''a'', isEditing = True, editedSummary = lit ''a'',
       history = [lit ''a'', lit ''b'', lit ''c''], historyIndex = 0, lastSaved = None\<rparr>"
    by (simp add: index_ok_def)
  show ?thesis
    using ok commit_discards_redo_tail [OF ok, of "lit ''x''"] by simp
qed

text \<open>
  C9. A single text change sets the buffer to the new text. History or index change if and
  only if the new length differs from the length of the buffer before by more than 10; in
  that case the new text is appended after the entry under the index, and with a
  difference of at most 10 history and index are untouched.
\<close>

theorem type_checkpoint_iff:
  "editedSummary (handleTextChange v s) = v
   \<and> ((history (handleTextChange v s), historyIndex (handleTextChange v s))
        \<noteq> (history s, historyIndex s)
      \<longleftrightarrow> \<bar>int (length v) - int (length (editedSummary s))\<bar> > 10)
   \<and> (index_ok s \<and> \<bar>int (length v) - int (length (editedSummary s))\<bar> > 10 \<longrightarrow>
        history (handleTextChange v s) = take (nat (historyIndex s) + 1) (history s) @ [v]
        \<and> historyIndex (handleTextChange v s) = historyIndex s + 1)
   \<and> (\<bar>int (length v) - int (length (editedSummary s))\<bar> \<le> 10 \<longrightarrow>
        history (handleTextChange v s) = history s
        \<and> historyIndex (handleTextChange v s) = historyIndex s)"
proof (cases "\<bar>int (length v) - int (length (editedSummary s))\<bar> > 10")
  case True
  then have eq: "handleTextChange v s = addToHistory v (s\<lparr>editedSummary := v\<rparr>)"
    by (simp add: handleTextChange_def Let_def)
  have ch: "(history (handleTextChange v s), historyIndex (handleTextChange v s))
        \<noteq> (history s, historyIndex s)"
    using addToHistory_changes [of v "s\<lparr>editedSummary := v\<rparr>"] by (simp add: eq)
  have sh: "index_ok s \<Longrightarrow>
        history (handleTextChange v s) = take (nat (historyIndex s) + 1) (history s) @ [v]
        \<and> historyIndex (handleTextChange v s) = historyIndex s + 1"
  proof -
    assume ok: "index_ok s"
    then have len: "length (take (nat (historyIndex s) + 1) (history s)) = nat (historyIndex s) + 1"
      by (simp add: index_ok_def min_def) arith
    from ok show ?thesis using len
      by (simp add: eq addToHistory_def Let_def js_slice0_in_range index_ok_def)
  qed
  show ?thesis using True ch sh by (simp add: eq addToHistory_buffer)
next
  case False
  then show ?thesis by (simp add: handleTextChange_def Let_def)
qed

theorem type_checkpoint_iff_witness:
  "history (handleTextChange (lit ''X and more content here'') (mount (lit ''X'')))
     = [lit ''X'', lit ''X and more content here'']
   \<and> historyIndex (handleTextChange (lit ''X and more content here'') (mount (lit ''X''))) = 1
   \<and> history (handleTextChange (lit ''X and more'') (mount (lit ''X''))) = [lit ''X'']
   \<and> historyIndex (handleTextChange (lit ''X and more'') (mount (lit ''X''))) = 0"
  using type_checkpoint_iff [of "lit ''X and more content here''" "mount (lit ''X'')"]
    type_checkpoint_iff [of "lit ''X and more''" "mount (lit ''X'')"]
  by (simp add: mount_def index_ok_def lit_def)

text \<open>
  C1. Take any state reached from the mounted editor by events that commit, that is by
  the handlers that call \<open>addToHistory\<close>: a text change of more than 10 code units, a
  formatting insertion, a save. Each of them commits the text it leaves in the buffer. In
  such a state Undo followed at once by Redo gives back the buffer as it was before the
  Undo, and the history index and the history as they were.
\<close>

theorem undo_redo_round_trip:
  "commit_run (mount v) es = Some s \<Longrightarrow>
     \<exists>u r. handleUndo s = Some u \<and> handleRedo u = Some r
       \<and> editedSummary r = editedSummary s \<and> historyIndex r = historyIndex s
       \<and> history r = history s"
proof -
  assume run: "commit_run (mount v) es = Some s"
  have "synced (mount v) \<and> historyIndex (mount v) = int (length (history (mount v))) - 1"
    by (simp add: synced_def index_ok_def mount_def)
  from commit_run_tip [OF run this] tip_round_trip show ?thesis by blast
qed


theorem undo_redo_round_trip_witness:
  "commit_run (mount (lit ''X'')) [Type (lit ''X and more content here'')]
     = Some \<lparr>summary = lit ''X'', isEditing = False,
             editedSummary = lit ''X and more content here'',
             history = [lit ''X'', lit ''X and more content here''], historyIndex = 1,
             lastSaved = None\<rparr>
   \<and> (\<exists>u r. handleUndo \<lparr>summary = lit ''X'', isEditing = False,
             editedSummary = lit ''X and more content here'',
             history = [lit ''X'', lit ''X and more content here''], historyIndex = 1,
             lastSaved = None\<rparr> = Some u
          \<and> handleRedo u = Some r
          \<and> editedSummary r = lit ''X and more content here'' \<and> historyIndex r = 1
          \<and> history r = [lit ''X'', lit ''X and more content here''])"
proof -
  have run: "commit_run (mount (lit ''X'')) [Type (lit ''X and more content here'')]
     = Some \<lparr>summary = lit ''X'', isEditing = False,
             editedSummary = lit ''X and more content here'',
             history = [lit ''X'', lit ''X and more content here''], historyIndex = 1,
             lastSaved = None\<rparr>"
    by (simp add: mount_def handleTextChange_def addToHistory_def js_slice0_def Let_def lit_def)
  from undo_redo_round_trip [OF run] show ?thesis
    unfolding run by simp
qed

text \<open>
  C5. With a selection \<open>start \<le> end\<close> inside the buffer, \<open>insertFormatting\<close> replaces the
  selected range by \<open>before\<close>, the selected text and \<open>after\<close>, and commits the result
  whatever the change in length: the new buffer is appended after the entry under the
  index and the index moves to it. The selection set afterwards is the original one
  shifted by the length of \<open>before\<close>. In particular, on the buffer \<open>hello world\<close> with markers
  \<open>**\<close> and selection 0 to 5 the buffer becomes \<open>**hello** world\<close>, a change of 4 code
  units, and it is appended to the history.
\<close>

theorem insertFormatting_splices_and_commits:
  "(start \<le> end \<and> end \<le> length (editedSummary s) \<and> index_ok s \<longrightarrow>
      editedSummary (fst (insertFormatting before after (Some (start, end)) s))
        = take start (editedSummary s) @ before
          @ take (end - start) (drop start (editedSummary s)) @ after
          @ drop end (editedSummary s)
      \<and> history (fst (insertFormatting before after (Some (start, end)) s))
        = take (nat (historyIndex s) + 1) (history s)
          @ [editedSummary (fst (insertFormatting before after (Some (start, end)) s))]
      \<and> historyIndex (fst (insertFormatting before after (Some (start, end)) s))
        = historyIndex s + 1
      \<and> snd (insertFormatting before after (Some (start, end)) s)
        = Some (start + length before, end + length before))
   \<and> (editedSummary s = lit ''hello world'' \<and> index_ok s \<longrightarrow>
      editedSummary (fst (insertFormatting (lit ''**'') (lit ''**'') (Some (0, 5)) s))
        = lit ''**hello** world''
      \<and> history (fst (insertFormatting (lit ''**'') (lit ''**'') (Some (0, 5)) s))
        = take (nat (historyIndex s) + 1) (history s) @ [lit ''**hello** world'']
      \<and> historyIndex (fst (insertFormatting (lit ''**'') (lit ''**'') (Some (0, 5)) s))
        = historyIndex s + 1
      \<and> snd (insertFormatting (lit ''**'') (lit ''**'') (Some (0, 5)) s) = Some (2, 7))"
proof -
  have gen: "editedSummary (fst (insertFormatting b a (Some (st, en)) s))
        = take st (editedSummary s) @ b @ take (en - st) (drop st (editedSummary s)) @ a
          @ drop en (editedSummary s)
      \<and> history (fst (insertFormatting b a (Some (st, en)) s))
        = take (nat (historyIndex s) + 1) (history s)
          @ [editedSummary (fst (insertFormatting b a (Some (st, en)) s))]
      \<and> historyIndex (fst (insertFormatting b a (Some (st, en)) s)) = historyIndex s + 1
      \<and> snd (insertFormatting b a (Some (st, en)) s) = Some (st + length b, en + length b)"
    if "st \<le> en" "en \<le> length (editedSummary s)" "index_ok s" for b a st en
  proof -
    let ?t = "take st (editedSummary s) @ b @ take (en - st) (drop st (editedSummary s)) @ a
          @ drop en (editedSummary s)"
    from that have ok: "index_ok (s\<lparr>editedSummary := ?t\<rparr>)" by (simp add: index_ok_def)
    from that have r: "insertFormatting b a (Some (st, en)) s
        = (addToHistory ?t (s\<lparr>editedSummary := ?t\<rparr>), Some (st + length b, en + length b))"
      by (simp add: insertFormatting_def Let_def js_substring_in_range js_substring_prefix
          js_substring_from_in_range)
    show ?thesis
      using addToHistory_in_range [OF ok, of ?t]
      by (simp add: r addToHistory_buffer)
  qed
  have ex: "editedSummary (fst (insertFormatting (lit ''**'') (lit ''**'') (Some (0, 5)) s))
        = lit ''**hello** world''
      \<and> history (fst (insertFormatting (lit ''**'') (lit ''**'') (Some (0, 5)) s))
        = take (nat (historyIndex s) + 1) (history s) @ [lit ''**hello** world'']
      \<and> historyIndex (fst (insertFormatting (lit ''**'') (lit ''**'') (Some (0, 5)) s))
        = historyIndex s + 1
      \<and> snd (insertFormatting (lit ''**'') (lit ''**'') (Some (0, 5)) s) = Some (2, 7)"
    if b: "editedSummary s = lit ''hello world''" and ok: "index_ok s"
  proof -
    have l: "(5::nat) \<le> length (editedSummary s)" by (simp add: b lit_def)
    have t: "take 0 (editedSummary s) @ lit ''**'' @ take (5 - 0) (drop 0 (editedSummary s))
        @ lit ''**'' @ drop 5 (editedSummary s) = lit ''**hello** world''"
      by (simp add: b lit_def)
    have n: "length (lit ''**'') = 2" by (simp add: lit_def)
    from gen [of 0 5 "lit ''**''" "lit ''**''", OF _ l ok] show ?thesis
      unfolding t n by simp
  qed
  from gen ex show ?thesis by blast
qed

theorem insertFormatting_splices_and_commits_witness:
  "editedSummary (fst (insertFormatting (lit ''**'') (lit ''**'') (Some (0, 5))
       (mount (lit ''hello world'')))) = lit ''**hello** world''
   \<and> history (fst (insertFormatting (lit ''**'') (lit ''**'') (Some (0, 5))
       (mount (lit ''hello world'')))) = [lit ''hello world'', lit ''**hello** world'']
   \<and> historyIndex (fst (insertFormatting (lit ''**'') (lit ''**'') (Some (0, 5))
       (mount (lit ''hello world'')))) = 1
   \<and> editedSummary (fst (insertFormatting (lit ''# '') [] (Some (3, 3))
       (mount (lit ''abcdef'')))) = lit ''abc# def''
   \<and> snd (insertFormatting (lit ''# '') [] (Some (3, 3)) (mount (lit ''abcdef''))) = Some (5, 5)"
proof -
  have ok: "index_ok (mount (lit ''hello world''))" "index_ok (mount (lit ''abcdef''))"
    by (simp_all add: index_ok_def mount_def)
  have b: "editedSummary (mount (lit ''hello world'')) = lit ''hello world''"
    "editedSummary (mount (lit ''abcdef'')) = lit ''abcdef''"
    "history (mount (lit ''hello world'')) = [lit ''hello world'']"
    "historyIndex (mount (lit ''hello world'')) = 0"
    by (simp_all add: mount_def)
  have l: "(3::nat) \<le> length (lit ''abcdef'')" "length (lit ''# '') = 2"
    "take 3 (lit ''abcdef'') @ lit ''# '' @ drop 3 (lit ''abcdef'') = lit ''abc# def''"
    by (simp_all add: lit_def)
  show ?thesis
    using insertFormatting_splices_and_commits [of 0 5 "mount (lit ''hello world'')" "[]" "[]"]
      insertFormatting_splices_and_commits [of 3 3 "mount (lit ''abcdef'')" "lit ''# ''" "[]"]
    by (simp add: ok b l)
qed

text \<open>
  C6. Every sequence of events from the mounted editor (text changes, Undo, Redo,
  formatting insertions, Save, Cancel, the mode controls, new summary props) runs to a
  state whose history index satisfies \<open>0 \<le> index < length history\<close>. In such a state an
  Undo with \<open>index > 0\<close> and a Redo with \<open>index < length history - 1\<close>, the two cases in
  which the handler moves the index, leave the buffer equal to the history entry under
  the index.
\<close>

theorem history_index_invariant:
  "\<exists>s. run (mount v) es = Some s
     \<and> 0 \<le> historyIndex s \<and> historyIndex s < int (length (history s))
     \<and> (0 < historyIndex s \<longrightarrow>
          (\<exists>u. handleUndo s = Some u \<and> history u ! nat (historyIndex u) = editedSummary u))
     \<and> (historyIndex s < int (length (history s)) - 1 \<longrightarrow>
          (\<exists>r. handleRedo s = Some r \<and> history r ! nat (historyIndex r) = editedSummary r))"
proof -
  have "index_ok (mount v)" by (simp add: index_ok_def mount_def)
  from index_ok_run [OF this, of es] obtain s
    where r: "run (mount v) es = Some s" and ok: "index_ok s" by blast
  from ok have b: "0 \<le> historyIndex s \<and> historyIndex s < int (length (history s))"
    by (simp add: index_ok_def)
  from r b undo_syncs [OF ok] redo_syncs [OF ok] show ?thesis by blast
qed

theorem history_index_invariant_witness:
  "run (mount (lit ''X'')) [TabEdit, Type (lit ''X and more content here''), Undo]
     = Some \<lparr>summary = lit ''X'', isEditing = True, editedSummary = lit ''X'',
             history = [lit ''X'', lit ''X and more content here''], historyIndex = 0,
             lastSaved = None\<rparr>
   \<and> (\<exists>r. handleRedo \<lparr>summary = lit ''X'', isEditing = True, editedSummary = lit ''X'',
             history = [lit ''X'', lit ''X and more content here''], historyIndex = 0,
             lastSaved = None\<rparr> = Some r
          \<and> history r ! nat (historyIndex r) = editedSummary r)
   \<and> run (mount (lit ''X'')) [TabEdit, Type (lit ''X and more content here'')]
     = Some \<lparr>summary = lit ''X'', isEditing = True,
             editedSummary = lit ''X and more content here'',
             history = [lit ''X'', lit ''X and more content here''], historyIndex = 1,
             lastSaved = None\<rparr>
   \<and> (\<exists>u. handleUndo \<lparr>summary = lit ''X'', isEditing = True,
             editedSummary = lit ''X and more content here'',
             history = [lit ''X'', lit ''X and more content here''], historyIndex = 1,
             lastSaved = None\<rparr> = Some u
          \<and> history u ! nat (historyIndex u) = editedSummary u)"
proof -
  have r1: "run (mount (lit ''X'')) [TabEdit, Type (lit ''X and more content here'')]
     = Some \<lparr>summary = lit ''X'', isEditing = True,
             editedSummary = lit ''X and more content here'',
             history = [lit ''X'', lit ''X and more content here''], historyIndex = 1,
             lastSaved = None\<rparr>"
    by (simp add: mount_def handleTextChange_def addToHistory_def js_slice0_def Let_def lit_def)
  have r2: "run (mount (lit ''X'')) [TabEdit, Type (lit ''X and more content here''), Undo]
     = Some \<lparr>summary = lit ''X'', isEditing = True, editedSummary = lit ''X'',
             history = [lit ''X'', lit ''X and more content here''], historyIndex = 0,
             lastSaved = None\<rparr>"
    by (simp add: mount_def handleTextChange_def addToHistory_def js_slice0_def Let_def lit_def
        handleUndo_def js_index_def)
  show ?thesis
    using history_index_invariant [of "lit ''X''" "[TabEdit, Type (lit ''X and more content here'')]"]
      history_index_invariant [of "lit ''X''" "[TabEdit, Type (lit ''X and more content here''), Undo]"]
    unfolding r1 r2 by simp
qed

text \<open>
  C6, as stated for any Undo: after a text change of one code unit, which is not
  committed, Undo at index 0 does nothing, and the buffer \<open>Xa\<close> differs from the history
  entry \<open>X\<close> under the index.
\<close>

theorem noop_undo_leaves_buffer_ahead:
  "run (mount (lit ''X'')) [TabEdit, Type (lit ''Xa''), Undo]
     = Some \<lparr>summary = lit ''X'', isEditing = True, editedSummary = lit ''Xa'',
             history = [lit ''X''], historyIndex = 0, lastSaved = None\<rparr>
   \<and> [lit ''X''] ! nat 0 \<noteq> lit ''Xa''"
  by (simp add: mount_def handleTextChange_def Let_def lit_def handleUndo_def)

text \<open>
  C2. Two text changes of 8 code units each, starting from the summary \<open>X\<close>: after the
  second the buffer is 16 code units longer than the last committed entry, and the
  history still holds that entry alone. The comparison in \<open>handleTextChange\<close> is with the
  buffer before the change, not with the last committed entry.
\<close>

theorem keystrokes_never_checkpoint:
  "run (mount (lit ''X'')) [TabEdit, Type (lit ''X12345678''), Type (lit ''X1234567812345678'')]
     = Some \<lparr>summary = lit ''X'', isEditing = True, editedSummary = lit ''X1234567812345678'',
             history = [lit ''X''], historyIndex = 0, lastSaved = None\<rparr>"
  by (simp add: mount_def handleTextChange_def Let_def lit_def)

section \<open>Request validation\<close>

text \<open>
  C8. POST /share, for a body that parses to a JSON value other than \<open>null\<close>: when
  \<open>recipients\<close> is absent, not an array or empty, the response is a 400 error; when
  summary and body are both empty, the response is a 400 error; when summary or body is
  present and some recipient fails the email pattern, the response is a 400 error whose
  message is the list of exactly the failing addresses, in order, separated by commas. A
  body that does not parse, and the body \<open>null\<close>, are answered with status 500 and the
  message of the error thrown. In each case no mail is handed to the transport.
\<close>

theorem share_validation:
  "(recipients req = Missing \<or> recipients req = NotArray \<or> recipients req = Array [] \<longrightarrow>
      POST_share env (JsonObject req)
        = (Error 400 (lit ''At least one recipient is required''), []))
   \<and> POST_share env JsonOther = (Error 400 (lit ''At least one recipient is required''), [])
   \<and> (\<not> truthy (share_summary req) \<and> \<not> truthy (body req) \<longrightarrow>
      status (fst (POST_share env (JsonObject req))) = 400
      \<and> snd (POST_share env (JsonObject req)) = [])
   \<and> (recipients req = Array rs \<and> (truthy (share_summary req) \<or> truthy (body req))
       \<and> (\<exists>e \<in> set rs. \<not> emailRegex_test e) \<longrightarrow>
      POST_share env (JsonObject req)
        = (Error 400 (lit ''Invalid email addresses: ''
                      @ js_join (lit '', '') (filter (\<lambda>e. \<not> emailRegex_test e) rs)), []))
   \<and> POST_share env (Unparseable msg) = (Error 500 msg, [])
   \<and> POST_share env JsonNull = (Error 500 (destructure_message env), [])"
proof -
  have a: "POST_share env (JsonObject req)
      = (Error 400 (lit ''At least one recipient is required''), [])"
    if "recipients req = Missing \<or> recipients req = NotArray \<or> recipients req = Array []"
    using that by (auto simp: POST_share_def destructure_simps)
  have o: "POST_share env JsonOther
      = (Error 400 (lit ''At least one recipient is required''), [])"
    by (simp add: POST_share_def destructure_simps absent_share_def)
  have b: "status (fst (POST_share env (JsonObject req))) = 400
      \<and> snd (POST_share env (JsonObject req)) = []"
    if "\<not> truthy (share_summary req) \<and> \<not> truthy (body req)"
    using that by (cases "recipients req") (simp_all add: POST_share_def destructure_simps)
  have c: "POST_share env (JsonObject req)
        = (Error 400 (lit ''Invalid email addresses: ''
                      @ js_join (lit '', '') (filter (\<lambda>e. \<not> emailRegex_test e) rs)), [])"
    if r: "recipients req = Array rs" and t: "truthy (share_summary req) \<or> truthy (body req)"
      and e: "\<exists>e \<in> set rs. \<not> emailRegex_test e"
  proof -
    from e have ne: "filter (\<lambda>e. \<not> emailRegex_test e) rs \<noteq> []"
      by (simp add: filter_empty_conv)
    then have "rs \<noteq> []" by auto
    with r t ne show ?thesis by (auto simp: POST_share_def destructure_simps Let_def)
  qed
  have u: "POST_share env (Unparseable msg) = (Error 500 msg, [])"
    by (simp add: POST_share_def destructure_simps)
  have n: "POST_share env JsonNull = (Error 500 (destructure_message env), [])"
    by (simp add: POST_share_def destructure_simps)
  from a o b c u n show ?thesis by blast
qed

theorem share_validation_witness:
  "POST_share resolving_env (JsonObject
     \<lparr>recipients = Array [], subject = None, body = None, format = None,
      share_summary = Some (lit ''notes'')\<rparr>)
     = (Error 400 (lit ''At least one recipient is required''), [])
   \<and> status (fst (POST_share resolving_env (JsonObject
        \<lparr>recipients = Array [lit ''a@b.co''], subject = None, body = Some [], format = None,
         share_summary = None\<rparr>))) = 400
   \<and> snd (POST_share resolving_env (JsonObject
        \<lparr>recipients = Array [lit ''a@b.co''], subject = None, body = Some [], format = None,
         share_summary = None\<rparr>)) = []
   \<and> POST_share resolving_env (JsonObject
        \<lparr>recipients = Array [lit ''bad'', lit ''a@b.co'', lit ''x y@z.w''], subject = None,
         body = None, format = None, share_summary = Some (lit ''notes'')\<rparr>)
     = (Error 400 (lit ''Invalid email addresses: bad, x y@z.w''), [])"
proof -
  have t: "truthy (Some (lit ''notes''))" "\<not> truthy None" "\<not> truthy (Some [])"
    by (simp_all add: truthy_def lit_def)
  have j: "lit ''Invalid email addresses: '' @ lit ''bad'' @ lit '', '' @ lit ''x y@z.w''
      = lit ''Invalid email addresses: bad, x y@z.w''"
    by (simp add: lit_def)
  show ?thesis
    using share_validation [of "\<lparr>recipients = Array [], subject = None, body = None,
          format = None, share_summary = Some (lit ''notes'')\<rparr>" resolving_env "[]"]
      share_validation [of "\<lparr>recipients = Array [lit ''a@b.co''], subject = None,
          body = Some [], format = None, share_summary = None\<rparr>" resolving_env "[]"]
      share_validation [of "\<lparr>recipients = Array [lit ''bad'', lit ''a@b.co'', lit ''x y@z.w''],
          subject = None, body = None, format = None, share_summary = Some (lit ''notes'')\<rparr>"
        resolving_env "[lit ''bad'', lit ''a@b.co'', lit ''x y@z.w'']"]
    by (simp add: t j emailRegex_test_examples)
qed

text \<open>
  C8, as stated for every request body. The body \<open>null\<close> has no recipients, and the
  answer is 500, not 400. With the single recipient \<open>bad\<close> and neither summary nor body,
  the check of summary and body answers first, and the message does not list the address.
\<close>

theorem share_null_body_and_check_order:
  "POST_share resolving_env JsonNull
     = (Error 500 (lit ''Cannot destructure property 'recipients' of null''), [])
   \<and> status (fst (POST_share resolving_env JsonNull)) \<noteq> 400
   \<and> \<not> emailRegex_test (lit ''bad'')
   \<and> POST_share resolving_env (JsonObject
        \<lparr>recipients = Array [lit ''bad''], subject = None, body = None, format = None,
         share_summary = Some []\<rparr>)
     = (Error 400 (lit ''Summary or message body is required''), [])
   \<and> lit ''Summary or message body is required'' \<noteq> lit ''Invalid email addresses: bad''"
proof -
  have m: "lit ''Summary or message body is required'' \<noteq> lit ''Invalid email addresses: bad''"
    by (simp add: lit_def)
  have n: "POST_share resolving_env JsonNull
     = (Error 500 (lit ''Cannot destructure property 'recipients' of null''), [])"
    by (simp add: POST_share_def destructure_simps resolving_env_def)
  show ?thesis
    using m by (simp add: n emailRegex_test_examples POST_share_def destructure_simps truthy_def
        resolving_env_def)
qed

text \<open>
  C10. POST /summarize, for a body that parses to a JSON value other than \<open>null\<close>: when
  the transcript or the prompt is absent or empty, the response is the 400 error with the
  message \<open>Transcript and prompt are required\<close>, and so carries no summary. A body that
  does not parse, and the body \<open>null\<close>, are answered with status 500 and the message
  \<open>Failed to generate summary\<close>.
\<close>

theorem summarize_validation:
  "(\<not> truthy (transcript req) \<or> \<not> truthy (prompt req) \<longrightarrow>
      POST_summarize (JsonObject req)
        = Error 400 (lit ''Transcript and prompt are required''))
   \<and> POST_summarize JsonOther = Error 400 (lit ''Transcript and prompt are required'')
   \<and> POST_summarize (Unparseable msg) = Error 500 (lit ''Failed to generate summary'')
   \<and> POST_summarize JsonNull = Error 500 (lit ''Failed to generate summary'')"
  by (auto simp: POST_summarize_def destructure_simps absent_summarize_def truthy_def)

theorem summarize_validation_witness:
  "POST_summarize (JsonObject \<lparr>transcript = Some (lit ''Alice: hello''), prompt = Some [],
      model = None, template = None\<rparr>)
     = Error 400 (lit ''Transcript and prompt are required'')
   \<and> POST_summarize (JsonObject \<lparr>transcript = None, prompt = Some (lit ''summarise''),
      model = None, template = None\<rparr>)
     = Error 400 (lit ''Transcript and prompt are required'')"
  using summarize_validation [of "\<lparr>transcript = Some (lit ''Alice: hello''), prompt = Some [],
        model = None, template = None\<rparr>"]
    summarize_validation [of "\<lparr>transcript = None, prompt = Some (lit ''summarise''),
        model = None, template = None\<rparr>"]
  by (simp add: truthy_def)

text \<open>
  C10, as stated for every request body: the body \<open>null\<close> has no transcript, and the
  answer is the 500 error, not the 400 error; so it is for a body that does not parse.
\<close>

theorem summarize_null_body:
  "POST_summarize JsonNull = Error 500 (lit ''Failed to generate summary'')
   \<and> status (POST_summarize JsonNull) \<noteq> 400
   \<and> POST_summarize (Unparseable (lit ''Unexpected end of JSON input''))
     = Error 500 (lit ''Failed to generate summary'')"
  by (simp add: POST_summarize_def destructure_simps)

end
